theory Spec2Isabelle
  imports Main "HOL-Library.Sublist"
begin

section \<open>Strings of the Go standard library\<close>

text \<open>
  A Go string is a sequence of bytes, here a \<open>string\<close> (a list of \<open>char\<close>).
  \<open>strings.HasPrefix\<close>, \<open>strings.HasSuffix\<close> and \<open>strings.Contains\<close> are the
  list predicates \<open>prefix\<close>, \<open>suffix\<close> and \<open>sublist\<close> (a contiguous run).
\<close>

definition HasPrefix :: "string \<Rightarrow> string \<Rightarrow> bool" where
  "HasPrefix s pre = prefix pre s"

definition HasSuffix :: "string \<Rightarrow> string \<Rightarrow> bool" where
  "HasSuffix s suf = suffix suf s"


text \<open>\<open>strings.TrimPrefix\<close>: the string without the prefix, when it has it.\<close>

definition TrimPrefix :: "string \<Rightarrow> string \<Rightarrow> string" where
  "TrimPrefix s pre = (if HasPrefix s pre then drop (length pre) s else s)"

text \<open>\<open>strings.Index\<close>: where the first occurrence of \<open>sep\<close> starts (Go returns -1 for none).\<close>

fun Index :: "string \<Rightarrow> string \<Rightarrow> nat option" where
  "Index [] sep = (if sep = [] then Some 0 else None)"
| "Index (c # cs) sep =
     (if prefix sep (c # cs) then Some 0 else map_option Suc (Index cs sep))"

text \<open>
  \<open>strings.Replace s old new n\<close> for a count \<open>n \<ge> 0\<close> and a non-empty \<open>old\<close>: the first
  \<open>n\<close> occurrences of \<open>old\<close>, found left to right without overlap, become \<open>new\<close>.
  The program calls it with \<open>old = "()"\<close> and \<open>n = 1\<close> only.
\<close>

fun replace_loop :: "nat \<Rightarrow> string \<Rightarrow> string \<Rightarrow> string \<Rightarrow> string" where
  "replace_loop 0 s old new = s"
| "replace_loop (Suc n) s old new =
     (case Index s old of
        None \<Rightarrow> s
      | Some j \<Rightarrow> take j s @ new @ replace_loop n (drop (j + length old) s) old new)"

definition Replace :: "string \<Rightarrow> string \<Rightarrow> string \<Rightarrow> nat \<Rightarrow> string" where
  "Replace s old new n = (if old = new \<or> n = 0 then s else replace_loop n s old new)"

text \<open>\<open>strings.Join\<close>: the elements with \<open>sep\<close> between neighbours.\<close>

fun Join :: "string list \<Rightarrow> string \<Rightarrow> string" where
  "Join [] sep = []"
| "Join [a] sep = a"
| "Join (a # b # rest) sep = a @ sep @ Join (b # rest) sep"

section \<open>Path helpers\<close>

text \<open>
  \<open>os.PathSeparator\<close> is a constant of the platform (\<open>/\<close>, or a backslash on Windows):
  the functions that read it take it as their first argument \<open>sep\<close>.
\<close>

definition PathHasPrefix :: "char \<Rightarrow> string \<Rightarrow> string \<Rightarrow> bool" where
  "PathHasPrefix sep s pre =
     (let prefixSlash =
            (if pre \<noteq> [] \<and> \<not> HasSuffix pre [sep] then pre @ [sep] else [])
      in s = pre \<or> HasPrefix s prefixSlash)"

definition PathTrimPrefix :: "char \<Rightarrow> string \<Rightarrow> string \<Rightarrow> string" where
  "PathTrimPrefix sep s pre =
     (if s = pre then []
      else TrimPrefix s (if \<not> HasSuffix pre [sep] then pre @ [sep] else pre))"

definition pathEqual :: "char \<Rightarrow> string \<Rightarrow> string \<Rightarrow> bool" where
  "pathEqual sep a b = (PathTrimPrefix sep a b = [])"


definition isURI :: "string \<Rightarrow> bool" where
  "isURI s = HasPrefix s ''file:///''"




section \<open>URL parsing\<close>














text \<open>
  What a Go function does beyond returning: a run-time panic (a nil dereference, a
  slice out of range), or the error the type checker gave.
\<close>

datatype error = Panic | TypecheckError string



section \<open>Syntax trees and the program snapshot\<close>

text \<open>
  The nodes of \<open>go/ast\<close> that the handler tells apart: identifiers, selector
  expressions, call expressions and function declarations. Every other node is
  \<open>OtherExpr\<close> or \<open>OtherNode\<close>, with its extent. \<open>token.Pos\<close> is a number, \<open>NoPos\<close>
  being 0.
\<close>

type_synonym Pos = nat

definition IsValid :: "Pos \<Rightarrow> bool" where
  "IsValid p = (p \<noteq> 0)"

datatype Ident = Ident (NamePos: Pos) (Name: string)

datatype Expr =
    IdentExpr Ident
  | SelectorExpr (X: Expr) (Sel: Ident)
  | CallNode CallExpr
  | OtherExpr Pos Pos
and CallExpr = CallExpr (Fun: Expr) (Lparen: Pos) (Args: "Expr list") (Rparen: Pos)

fun Pos_of :: "Expr \<Rightarrow> Pos" where
  "Pos_of (IdentExpr i) = NamePos i"
| "Pos_of (SelectorExpr x sel) = Pos_of x"
| "Pos_of (CallNode (CallExpr f lparen args rparen)) = Pos_of f"
| "Pos_of (OtherExpr from to) = from"

fun End_of :: "Expr \<Rightarrow> Pos" where
  "End_of (IdentExpr i) = NamePos i + length (Name i)"
| "End_of (SelectorExpr x sel) = NamePos sel + length (Name sel)"
| "End_of (CallNode (CallExpr f lparen args rparen)) = rparen + 1"
| "End_of (OtherExpr from to) = to"

text \<open>
  A declaration \<open>func (recv) name(params) results { body }\<close>. \<open>Doc\<close> is the comment
  group by its \<open>Text()\<close>; the statements of a body are never read.
\<close>

record Field =
  Names :: "Ident list"
  Type :: Expr

datatype FieldList = FieldList (List: "Field list")

record FuncType =
  Params :: FieldList
  Results :: "FieldList option"

datatype BlockStmt = BlockStmt (Lbrace: Pos) (Rbrace: Pos)

record FuncDecl =
  Doc :: "string option"
  Recv :: "FieldList option"
  DeclName :: Ident
  DeclType :: FuncType
  Body :: "BlockStmt option"

datatype Node = ExprNode Expr | FuncDeclNode FuncDecl | OtherNode Pos Pos

text \<open>
  What the handler asks of the type-checked program, which the loader and the type
  checker own: the chain of nodes enclosing an interval, innermost first
  (\<open>prog.PathEnclosingInterval\<close>, the empty list when no file holds the interval); the
  object an identifier denotes, by its declaring position (\<open>pkg.ObjectOf\<close>, \<open>None\<close>
  for nil); the type of an expression by its \<open>String()\<close> (\<open>pkg.TypeOf\<close>, \<open>None\<close> for
  nil).
\<close>

datatype Object = Object (ObjPos: Pos)

record Program =
  PathEnclosingInterval :: "Pos \<Rightarrow> Pos \<Rightarrow> Node list"

record PackageInfo =
  ObjectOf :: "Ident \<Rightarrow> Object option"
  TypeOf :: "Expr \<Rightarrow> string option"

text \<open>
  What \<open>h.typecheck\<close> returns for a document and a position: the enclosing nodes, the
  program, the package and an error, which is an \<open>invalidNodeError\<close> (the node at the
  position is not an identifier; nodes, program and package are there all the same)
  or any other.
\<close>

datatype TypecheckErr = InvalidNodeError | OtherError string

record Typechecked =
  tc_nodes :: "Node list"
  tc_program :: Program
  tc_pkg :: PackageInfo
  tc_err :: "TypecheckErr option"

record Position =
  Line :: int
  Character :: int

record TextDocumentIdentifier =
  URI :: string

record TextDocumentPositionParams =
  TextDocument :: TextDocumentIdentifier
  Position :: Position

record LangHandler =
  typecheck :: "string \<Rightarrow> Position \<Rightarrow> Typechecked"

datatype ParameterInformation = ParameterInformation (ParamLabel: string)

record SignatureInformation =
  Label :: string
  Documentation :: string
  Parameters :: "ParameterInformation list"

record SignatureHelp =
  Signatures :: "SignatureInformation list"
  ActiveSignature :: int
  ActiveParameter :: int

section \<open>Signature help\<close>

text \<open>\<open>callExpr\<close>: the first call expression of the path.\<close>

fun callExpr :: "Node list \<Rightarrow> CallExpr option" where
  "callExpr [] = None"
| "callExpr (node # rest) =
     (case node of
        ExprNode (CallNode c) \<Rightarrow> Some c
      | _ \<Rightarrow> callExpr rest)"

text \<open>
  \<open>ident\<close>: the loop \<open>for i := 0; i < 4 && i < len(path); i++\<close> at index \<open>i\<close>, with
  the nodes from \<open>path[i]\<close> on.
\<close>

fun ident_loop :: "nat \<Rightarrow> Node list \<Rightarrow> Ident option" where
  "ident_loop i [] = None"
| "ident_loop i (node # rest) =
     (if i < 4 then
        (case node of
           ExprNode (IdentExpr t) \<Rightarrow> Some t
         | ExprNode (SelectorExpr x sel) \<Rightarrow> Some sel
         | _ \<Rightarrow> ident_loop (Suc i) rest)
      else None)"

definition ident :: "Program \<Rightarrow> PackageInfo \<Rightarrow> Expr \<Rightarrow> Ident option" where
  "ident prog pkg node = ident_loop 0 (PathEnclosingInterval prog (Pos_of node) (End_of node))"

fun funcDecl_loop :: "Node list \<Rightarrow> FuncDecl option" where
  "funcDecl_loop [] = None"
| "funcDecl_loop (node # rest) =
     (case node of
        FuncDeclNode decl \<Rightarrow> Some decl
      | _ \<Rightarrow> funcDecl_loop rest)"

definition funcDecl :: "Program \<Rightarrow> PackageInfo \<Rightarrow> CallExpr \<Rightarrow> FuncDecl option" where
  "funcDecl prog pkg node =
     (case ident prog pkg (Fun node) of
        None \<Rightarrow> None
      | Some idn \<Rightarrow>
          (case ObjectOf pkg idn of
             None \<Rightarrow> None
           | Some ob \<Rightarrow>
               if \<not> IsValid (ObjPos ob) then None
               else funcDecl_loop (PathEnclosingInterval prog (ObjPos ob) (ObjPos ob))))"

text \<open>
  \<open>nodeAsString\<close>: \<open>Fprint\<close> is the printer of \<open>go/printer\<close> with the configuration
  and the file set of the call, as the text it writes for a declaration, \<open>None\<close> when
  it returns an error.
\<close>

definition nodeAsString :: "(FuncDecl \<Rightarrow> string option) \<Rightarrow> FuncDecl \<Rightarrow> string" where
  "nodeAsString Fprint node = (case Fprint node of None \<Rightarrow> [] | Some buf \<Rightarrow> buf)"

text \<open>
  \<open>parametersAsString\<close>: the loop over the names of a field inside the loop over the
  fields, each appending to \<open>labels\<close>. \<open>pkg.TypeOf(field.Type).String()\<close> panics on a
  nil type.
\<close>

fun names_loop :: "string list \<Rightarrow> string \<Rightarrow> Ident list \<Rightarrow> string list" where
  "names_loop labels t [] = labels"
| "names_loop labels t (name # rest) = names_loop (labels @ [Name name @ '' '' @ t]) t rest"

fun fields_loop :: "PackageInfo \<Rightarrow> string list \<Rightarrow> Field list \<Rightarrow> error + string list" where
  "fields_loop pkg labels [] = Inr labels"
| "fields_loop pkg labels (field # rest) =
     (case TypeOf pkg (Type field) of
        None \<Rightarrow> Inl Panic
      | Some t \<Rightarrow> fields_loop pkg (names_loop labels t (Names field)) rest)"

definition parametersAsString :: "FieldList \<Rightarrow> PackageInfo \<Rightarrow> error + string list" where
  "parametersAsString flds pkg = fields_loop pkg [] (List flds)"

text \<open>The declaration that \<open>funcInfo\<close> prints: receiver, name and results of \<open>fDecl\<close>, no parameters.\<close>

definition clone :: "FuncDecl \<Rightarrow> FuncDecl" where
  "clone fDecl =
     \<lparr>Doc = None, Recv = Recv fDecl, DeclName = DeclName fDecl,
      DeclType = \<lparr>Params = FieldList [], Results = Results (DeclType fDecl)\<rparr>,
      Body = None\<rparr>"

fun funcInfo_loop ::
  "(FuncDecl \<Rightarrow> string option) \<Rightarrow> Program \<Rightarrow> PackageInfo \<Rightarrow> Node list
     \<Rightarrow> error + (string \<times> string list \<times> string)" where
  "funcInfo_loop Fprint prog pkg [] = Inr ([], [], [])"
| "funcInfo_loop Fprint prog pkg (node # rest) =
     (case node of
        ExprNode (CallNode call) \<Rightarrow>
          (case funcDecl prog pkg call of
             None \<Rightarrow> Inr ([], [], [])
           | Some fDecl \<Rightarrow>
               (let doc = (case Doc fDecl of None \<Rightarrow> [] | Some d \<Rightarrow> d) in
                case parametersAsString (Params (DeclType fDecl)) pkg of
                  Inl e \<Rightarrow> Inl e
                | Inr parameters \<Rightarrow>
                    (let signature = nodeAsString Fprint (clone fDecl) in
                     Inr (Replace signature ''()'' (''('' @ Join parameters '', '' @ '')'') 1,
                          parameters, doc))))
      | _ \<Rightarrow> funcInfo_loop Fprint prog pkg rest)"

definition funcInfo ::
  "(FuncDecl \<Rightarrow> string option) \<Rightarrow> Program \<Rightarrow> PackageInfo \<Rightarrow> Expr
     \<Rightarrow> error + (string \<times> string list \<times> string)" where
  "funcInfo Fprint prog pkg node =
     funcInfo_loop Fprint prog pkg (PathEnclosingInterval prog (Pos_of node) (Pos_of node))"

text \<open>
  The handler. \<open>Inl\<close> is an error or a panic, \<open>Inr None\<close> the empty result
  \<open>(nil, nil)\<close>, \<open>Inr (Some r)\<close> the result \<open>r\<close>. The context, the connection and the
  request are only handed to \<open>h.typecheck\<close>.
\<close>

definition handleTextDocumentSignatureHelp ::
  "(FuncDecl \<Rightarrow> string option) \<Rightarrow> LangHandler \<Rightarrow> TextDocumentPositionParams
     \<Rightarrow> error + SignatureHelp option" where
  "handleTextDocumentSignatureHelp Fprint h params =
     (let tc = typecheck h (URI (TextDocument params)) (Position params) in
      case tc_err tc of
        Some (OtherError e) \<Rightarrow> Inl (TypecheckError e)
      | _ \<Rightarrow>
        (case callExpr (tc_nodes tc) of
           None \<Rightarrow> Inr None
         | Some call \<Rightarrow>
            (case funcInfo Fprint (tc_program tc) (tc_pkg tc) (Fun call) of
               Inl e \<Rightarrow> Inl e
             | Inr (signature, parameters, doc) \<Rightarrow>
                 if signature = [] then Inr None
                 else
                   (let info = \<lparr>Label = signature, Documentation = doc,
                                Parameters = map ParameterInformation parameters\<rparr>;
                        activeParameter = int (length (Parameters info));
                        activeParameter =
                          (if activeParameter > 0 then activeParameter - 1 else activeParameter);
                        numArguments = int (length (Args call));
                        activeParameter =
                          (if activeParameter > numArguments then numArguments else activeParameter)
                    in Inr (Some \<lparr>Signatures = [info], ActiveSignature = 0,
                                  ActiveParameter = activeParameter\<rparr>)))))"


section \<open>An example program\<close>

text \<open>
  The scenario of the specification, as the type checker would hand it over. The file
  \<open>/src/add.go\<close> declares \<open>func Add(a, b int) int\<close> (the name at position 6) with
  the documentation "Add returns the sum.", and \<open>func F()\<close> (the name at position 55).
  Line 3 holds the call \<open>Add(1, )\<close> at position 100, line 4 the call \<open>F()\<close> at
  position 120; a request on any other line is outside every call. The cursor is
  never on an identifier, so the type checker reports an \<open>invalidNodeError\<close>.
  \<open>example_Fprint\<close> is what \<open>go/printer\<close> writes for the two clones.
\<close>

definition Add_decl :: FuncDecl where
  "Add_decl =
     \<lparr>Doc = Some ''Add returns the sum.'', Recv = None, DeclName = Ident 6 ''Add'',
      DeclType = \<lparr>Params = FieldList [\<lparr>Names = [Ident 10 ''a'', Ident 13 ''b''],
                                         Type = IdentExpr (Ident 15 ''int'')\<rparr>],
                  Results = Some (FieldList [\<lparr>Names = [], Type = IdentExpr (Ident 20 ''int'')\<rparr>])\<rparr>,
      Body = Some (BlockStmt 24 40)\<rparr>"

definition F_decl :: FuncDecl where
  "F_decl =
     \<lparr>Doc = None, Recv = None, DeclName = Ident 55 ''F'',
      DeclType = \<lparr>Params = FieldList [], Results = None\<rparr>,
      Body = Some (BlockStmt 59 60)\<rparr>"

definition Add_call :: CallExpr where
  "Add_call = CallExpr (IdentExpr (Ident 100 ''Add'')) 103 [OtherExpr 104 105] 107"

definition F_call :: CallExpr where
  "F_call = CallExpr (IdentExpr (Ident 120 ''F'')) 121 [] 122"

definition example_program :: Program where
  "example_program =
     \<lparr>PathEnclosingInterval = (\<lambda>start end.
        if start = 100 then [ExprNode (IdentExpr (Ident 100 ''Add'')), ExprNode (CallNode Add_call),
                             OtherNode 100 108, OtherNode 1 200]
        else if start = 120 then [ExprNode (IdentExpr (Ident 120 ''F'')), ExprNode (CallNode F_call),
                                  OtherNode 120 123, OtherNode 1 200]
        else if start = 6 then [ExprNode (IdentExpr (Ident 6 ''Add'')), FuncDeclNode Add_decl,
                                OtherNode 1 200]
        else if start = 55 then [ExprNode (IdentExpr (Ident 55 ''F'')), FuncDeclNode F_decl,
                                 OtherNode 1 200]
        else [])\<rparr>"

definition example_pkg :: PackageInfo where
  "example_pkg =
     \<lparr>ObjectOf = (\<lambda>i. if Name i = ''Add'' then Some (Object 6)
                       else if Name i = ''F'' then Some (Object 55) else None),
      TypeOf = (\<lambda>e. if e = IdentExpr (Ident 15 ''int'') then Some ''int'' else None)\<rparr>"

definition example_handler :: LangHandler where
  "example_handler =
     \<lparr>typecheck = (\<lambda>uri pos.
        if Line pos = 3 then
          \<lparr>tc_nodes = [ExprNode (CallNode Add_call), OtherNode 100 108, OtherNode 1 200],
           tc_program = example_program, tc_pkg = example_pkg, tc_err = Some InvalidNodeError\<rparr>
        else if Line pos = 4 then
          \<lparr>tc_nodes = [ExprNode (CallNode F_call), OtherNode 120 123, OtherNode 1 200],
           tc_program = example_program, tc_pkg = example_pkg, tc_err = Some InvalidNodeError\<rparr>
        else
          \<lparr>tc_nodes = [OtherNode 1 200],
           tc_program = example_program, tc_pkg = example_pkg, tc_err = Some InvalidNodeError\<rparr>)\<rparr>"

definition example_Fprint :: "FuncDecl \<Rightarrow> string option" where
  "example_Fprint d =
     (if d = clone Add_decl then Some ''func Add() int''
      else if d = clone F_decl then Some ''func F()''
      else None)"

definition request :: "int \<Rightarrow> int \<Rightarrow> TextDocumentPositionParams" where
  "request line character =
     \<lparr>TextDocument = \<lparr>URI = ''file:///src/add.go''\<rparr>,
      Position = \<lparr>Line = line, Character = character\<rparr>\<rparr>"







section \<open>Auxiliary facts\<close>





lemma callExpr_None_iff:
  "callExpr ns = None \<longleftrightarrow> (\<forall>c. ExprNode (CallNode c) \<notin> set ns)"
  by (induction ns) (auto split: Node.splits Expr.splits)

lemma funcInfo_loop_callExpr:
  "funcInfo_loop Fprint prog pkg path =
     (case callExpr path of
        None \<Rightarrow> Inr ([], [], [])
      | Some c \<Rightarrow>
          (case funcDecl prog pkg c of
             None \<Rightarrow> Inr ([], [], [])
           | Some fDecl \<Rightarrow>
               (case parametersAsString (Params (DeclType fDecl)) pkg of
                  Inl e \<Rightarrow> Inl e
                | Inr parameters \<Rightarrow>
                    Inr (Replace (nodeAsString Fprint (clone fDecl)) ''()''
                           (''('' @ Join parameters '', '' @ '')'') 1,
                         parameters,
                         case Doc fDecl of None \<Rightarrow> [] | Some d \<Rightarrow> d))))"
  by (induction path) (auto split: Node.splits Expr.splits option.splits sum.splits)




lemma handler_resolved:
  assumes tc: "tc = typecheck h (URI (TextDocument params)) (Position params)"
    and ok: "\<forall>e. tc_err tc \<noteq> Some (OtherError e)"
    and call: "callExpr (tc_nodes tc) = Some call"
    and c: "callExpr (PathEnclosingInterval (tc_program tc) (Pos_of (Fun call)) (Pos_of (Fun call))) = Some c"
    and fd: "funcDecl (tc_program tc) (tc_pkg tc) c = Some fd"
    and ps: "parametersAsString (Params (DeclType fd)) (tc_pkg tc) = Inr ps"
    and sg: "sg = Replace (nodeAsString Fprint (clone fd)) ''()'' (''('' @ Join ps '', '' @ '')'') 1"
  shows "handleTextDocumentSignatureHelp Fprint h params =
           (if sg = [] then Inr None
            else Inr (Some \<lparr>Signatures =
                              [\<lparr>Label = sg,
                                Documentation = (case Doc fd of None \<Rightarrow> [] | Some d \<Rightarrow> d),
                                Parameters = map ParameterInformation ps\<rparr>],
                            ActiveSignature = 0,
                            ActiveParameter =
                              (if ps = [] then 0
                               else min (int (length ps) - 1) (int (length (Args call))))\<rparr>))"
proof -
  have fi: "funcInfo Fprint (tc_program tc) (tc_pkg tc) (Fun call)
      = Inr (sg, ps, case Doc fd of None \<Rightarrow> [] | Some d \<Rightarrow> d)"
    unfolding funcInfo_def funcInfo_loop_callExpr using c fd ps sg by simp
  have e: "(case tc_err tc of Some (OtherError e) \<Rightarrow> A e | _ \<Rightarrow> B) = B" for A and B :: "'z"
    using ok by (cases "tc_err tc") (auto split: TypecheckErr.splits)
  show ?thesis
    unfolding handleTextDocumentSignatureHelp_def Let_def tc[symmetric] e
    using call fi by (cases ps) (auto simp: min_def)
qed


lemmas ex_defs = handleTextDocumentSignatureHelp_def example_handler_def request_def
  example_Fprint_def example_pkg_def example_program_def Add_call_def F_call_def Add_decl_def F_decl_def
  funcInfo_def funcDecl_def ident_def clone_def parametersAsString_def nodeAsString_def Replace_def IsValid_def


















section \<open>The claims\<close>

text \<open>
  C1, as stated, fails. In the example program \<open>F\<close> is declared with no parameters, the
  call \<open>F()\<close> resolves to that declaration, and the handler returns a signature: the
  label \<open>func F()\<close>, no parameters, active parameter 0. The result is not empty.
\<close>

theorem zero_parameters_counterexample:
  "List (Params (DeclType F_decl)) = []
     \<and> funcDecl example_program example_pkg F_call = Some F_decl
     \<and> handleTextDocumentSignatureHelp example_Fprint example_handler (request 4 2)
         = Inr (Some \<lparr>Signatures = [\<lparr>Label = ''func F()'', Documentation = [], Parameters = []\<rparr>],
                      ActiveSignature = 0, ActiveParameter = 0\<rparr>)
     \<and> handleTextDocumentSignatureHelp example_Fprint example_handler (request 4 2) \<noteq> Inr None"
  by (simp add: ex_defs)

text \<open>
  C1, amended. For a request that resolves to a callable declaration with no declared
  parameters, the handler returns one signature whose label is the printed declaration,
  with an empty parameter list and the active parameter 0. The result is empty only when
  the printed declaration is the empty string, which is what \<open>nodeAsString\<close> gives when
  the printer fails. The handler tests the label, not the number of parameters, and its
  guard \<open>activeParameter > 0\<close> is there for the signature without parameters.
\<close>

theorem zero_parameters_result:
  assumes "tc = typecheck h (URI (TextDocument params)) (Position params)"
    and "\<forall>e. tc_err tc \<noteq> Some (OtherError e)"
    and "callExpr (tc_nodes tc) = Some call"
    and "callExpr (PathEnclosingInterval (tc_program tc) (Pos_of (Fun call)) (Pos_of (Fun call))) = Some c"
    and "funcDecl (tc_program tc) (tc_pkg tc) c = Some fd"
    and "List (Params (DeclType fd)) = []"
  shows "handleTextDocumentSignatureHelp Fprint h params =
           (if nodeAsString Fprint (clone fd) = [] then Inr None
            else Inr (Some \<lparr>Signatures =
                              [\<lparr>Label = nodeAsString Fprint (clone fd),
                                Documentation = (case Doc fd of None \<Rightarrow> [] | Some d \<Rightarrow> d),
                                Parameters = []\<rparr>],
                            ActiveSignature = 0, ActiveParameter = 0\<rparr>))"
proof -
  have ps: "parametersAsString (Params (DeclType fd)) (tc_pkg tc) = Inr []"
    using assms(6) by (simp add: parametersAsString_def)
  have sg: "nodeAsString Fprint (clone fd)
      = Replace (nodeAsString Fprint (clone fd)) ''()'' (''('' @ Join [] '', '' @ '')'') 1"
    by (simp add: Replace_def)
  show ?thesis
    using handler_resolved[OF assms(1,2,3,4,5) ps sg] by simp
qed

text \<open>The call \<open>F()\<close> of the example program satisfies the hypotheses of C1 as amended.\<close>

theorem zero_parameters_result_witness:
  "List (Params (DeclType F_decl)) = []
   \<and> handleTextDocumentSignatureHelp example_Fprint example_handler (request 4 2)
       = Inr (Some \<lparr>Signatures = [\<lparr>Label = ''func F()'', Documentation = [], Parameters = []\<rparr>],
                    ActiveSignature = 0, ActiveParameter = 0\<rparr>)"
proof -
  define tc where "tc = typecheck example_handler (URI (TextDocument (request 4 2))) (Position (request 4 2))"
  have 2: "\<forall>e. tc_err tc \<noteq> Some (OtherError e)"
    by (simp add: tc_def example_handler_def request_def)
  have 3: "callExpr (tc_nodes tc) = Some F_call"
    by (simp add: tc_def example_handler_def request_def)
  have 4: "callExpr (PathEnclosingInterval (tc_program tc) (Pos_of (Fun F_call)) (Pos_of (Fun F_call))) = Some F_call"
    by (simp add: tc_def example_handler_def request_def example_program_def F_call_def)
  have 5: "funcDecl (tc_program tc) (tc_pkg tc) F_call = Some F_decl"
    by (simp add: tc_def example_handler_def request_def example_program_def example_pkg_def
        F_call_def funcDecl_def ident_def IsValid_def)
  have 6: "List (Params (DeclType F_decl)) = []" by (simp add: F_decl_def)
  show ?thesis
    using zero_parameters_result[OF tc_def 2 3 4 5 6, of example_Fprint] 6
    by (simp add: nodeAsString_def example_Fprint_def F_decl_def Add_decl_def clone_def)
qed







text \<open>
  C5. A request has an enclosing-node path when the type check gave one, that is, when
  its error is nil or an \<open>invalidNodeError\<close>. When no node of that path is a call
  expression, the handler returns the empty result and no error.
\<close>

theorem no_call_empty_result:
  assumes "tc = typecheck h (URI (TextDocument params)) (Position params)"
    and "\<forall>e. tc_err tc \<noteq> Some (OtherError e)"
    and "\<forall>c. ExprNode (CallNode c) \<notin> set (tc_nodes tc)"
  shows "handleTextDocumentSignatureHelp Fprint h params = Inr None"
proof -
  have n: "callExpr (tc_nodes tc) = None" using assms(3) by (simp add: callExpr_None_iff)
  have e: "(case tc_err tc of Some (OtherError e) \<Rightarrow> A e | _ \<Rightarrow> B) = B" for A and B :: "'z"
    using assms(2) by (cases "tc_err tc") (auto split: TypecheckErr.splits)
  show ?thesis
    unfolding handleTextDocumentSignatureHelp_def Let_def assms(1)[symmetric] e n by simp
qed

text \<open>A request of the example program whose path holds the file node only.\<close>

theorem no_call_empty_result_witness:
  "(\<forall>c. ExprNode (CallNode c) \<notin>
        set (tc_nodes (typecheck example_handler (URI (TextDocument (request 9 2))) (Position (request 9 2)))))
   \<and> handleTextDocumentSignatureHelp example_Fprint example_handler (request 9 2) = Inr None"
proof -
  define tc where "tc = typecheck example_handler (URI (TextDocument (request 9 2))) (Position (request 9 2))"
  have 2: "\<forall>e. tc_err tc \<noteq> Some (OtherError e)"
    by (simp add: tc_def example_handler_def request_def)
  have 3: "\<forall>c. ExprNode (CallNode c) \<notin> set (tc_nodes tc)"
    by (simp add: tc_def example_handler_def request_def)
  from no_call_empty_result[OF tc_def 2 3, of example_Fprint] 3
  show ?thesis unfolding tc_def by blast
qed



text \<open>
  C7, as stated, fails at the empty prefix: \<open>PathHasPrefix "abc" ""\<close> is true, although
  \<open>"abc"\<close> is not \<open>""\<close> and does not start with the separator.
\<close>

theorem PathHasPrefix_counterexample:
  "PathHasPrefix CHR ''/'' ''abc'' ''''
   \<and> \<not> (''abc'' = '''' \<or> HasPrefix ''abc'' ('''' @ [CHR ''/'']))"
  by (simp add: PathHasPrefix_def HasPrefix_def)

text \<open>
  C7, amended. \<open>PathHasPrefix s ""\<close> is true for every \<open>s\<close>, by the guard
  \<open>prefix != ""\<close>. For a non-empty \<open>prefix\<close> that does not end with the separator,
  \<open>PathHasPrefix s prefix\<close> is true if and only if \<open>s = prefix\<close> or \<open>s\<close> starts with
  \<open>prefix\<close> followed by the separator.
\<close>

theorem PathHasPrefix_amended:
  "(pre = [] \<longrightarrow> PathHasPrefix sep s pre)
   \<and> (pre \<noteq> [] \<and> \<not> HasSuffix pre [sep] \<longrightarrow>
        (PathHasPrefix sep s pre \<longleftrightarrow> s = pre \<or> HasPrefix s (pre @ [sep])))"
  by (simp add: PathHasPrefix_def HasPrefix_def)

text \<open>The empty prefix, and the prefix \<open>src\<close> of \<open>src/a.go\<close> but not of \<open>srcs/a.go\<close>.\<close>

theorem PathHasPrefix_amended_witness:
  "PathHasPrefix CHR ''/'' ''abc'' []
   \<and> ''src'' \<noteq> [] \<and> \<not> HasSuffix ''src'' [CHR ''/'']
   \<and> PathHasPrefix CHR ''/'' ''src/a.go'' ''src''
   \<and> \<not> PathHasPrefix CHR ''/'' ''srcs/a.go'' ''src''"
proof -
  have 1: "''src'' \<noteq> [] \<and> \<not> HasSuffix ''src'' [CHR ''/'']"
    by (simp add: HasSuffix_def suffix_to_prefix)
  from PathHasPrefix_amended[of "[]" "CHR ''/''" "''abc''"]
  have 2: "PathHasPrefix CHR ''/'' ''abc'' []" by blast
  from PathHasPrefix_amended[of "''src''" "CHR ''/''" "''src/a.go''"] 1
  have 3: "PathHasPrefix CHR ''/'' ''src/a.go'' ''src''" by (simp add: HasPrefix_def)
  from PathHasPrefix_amended[of "''src''" "CHR ''/''" "''srcs/a.go''"] 1
  have 4: "\<not> PathHasPrefix CHR ''/'' ''srcs/a.go'' ''src''" by (simp add: HasPrefix_def)
  from 1 2 3 4 show ?thesis by blast
qed








end
